theory Spec2Isabelle
  imports Complex_Main
begin

section \<open>Python values used by the health endpoints\<close>

text \<open>
  The response bodies are Python dict literals handed to the JSON encoder. A dict is kept
  as an association list in insertion order, so that the key names of the source are part
  of the model. \<open>JTime t\<close> stands for \<^verbatim>\<open>datetime.isoformat()\<close> of the clock reading
  \<open>t\<close> (microseconds since the epoch, the resolution of \<^verbatim>\<open>datetime\<close>); the rendering of the
  text is not modelled. Python floats are kept as the rational number they approximate.
\<close>

datatype json =
    JBool bool
  | JInt int
  | JNum rat
  | JStr string
  | JTime int
  | JObj "(string \<times> json) list"

fun field :: "string \<Rightarrow> json \<Rightarrow> json option" where
  "field k (JObj kvs) = map_of kvs k"
| "field k _ = None"

fun keys :: "json \<Rightarrow> string list" where
  "keys (JObj kvs) = map fst kvs"
| "keys _ = []"

text \<open>Python truthiness, as used by \<^verbatim>\<open>all(...)\<close> and by a conditional expression.\<close>

fun truthy :: "json \<Rightarrow> bool" where
  "truthy (JBool b) = b"
| "truthy (JInt i) = (i \<noteq> 0)"
| "truthy (JNum q) = (q \<noteq> 0)"
| "truthy (JStr s) = (s \<noteq> [])"
| "truthy (JTime t) = True"
| "truthy (JObj kvs) = (kvs \<noteq> [])"

text \<open>\<^verbatim>\<open>all(checks.values())\<close>\<close>

definition all_values :: "(string \<times> json) list \<Rightarrow> bool" where
  "all_values kvs = list_all truthy (map snd kvs)"

text \<open>
  An exception is either an instance of \<^verbatim>\<open>Exception\<close> (what \<^verbatim>\<open>except Exception\<close> catches) or
  an instance of \<^verbatim>\<open>BaseException\<close> only (\<^verbatim>\<open>KeyboardInterrupt\<close>, \<^verbatim>\<open>SystemExit\<close>, ...). It carries
  the class name and what \<^verbatim>\<open>str(e)\<close> does: in the first two forms \<^verbatim>\<open>str(e)\<close> returns the
  given text; the third form is an instance of \<^verbatim>\<open>Exception\<close> whose \<^verbatim>\<open>__str__\<close> raises the given
  exception.
\<close>

datatype py_exc =
    PyException string string
  | PyBaseException string string
  | PyExceptionStrRaises string py_exc

fun is_Exception :: "py_exc \<Rightarrow> bool" where
  "is_Exception (PyException c m) = True"
| "is_Exception (PyBaseException c m) = False"
| "is_Exception (PyExceptionStrRaises c y) = True"

text \<open>\<^verbatim>\<open>str(e)\<close>, as the f-string \<^verbatim>\<open>f"{e}"\<close> evaluates it: the text, or the exception it raises.\<close>

fun str_exc :: "py_exc \<Rightarrow> py_exc + string" where
  "str_exc (PyException c m) = Inr m"
| "str_exc (PyBaseException c m) = Inr m"
| "str_exc (PyExceptionStrRaises c y) = Inl y"

text \<open>
  One call into a driver library: \<open>None\<close> when it returns, \<open>Some e\<close> when it raises \<open>e\<close>.
  Inside a \<^verbatim>\<open>try\<close> block the calls run in order and the first one that raises ends the block.
\<close>

type_synonym call = "py_exc option"

fun first_raise :: "call list \<Rightarrow> py_exc option" where
  "first_raise [] = None"
| "first_raise (None # cs) = first_raise cs"
| "first_raise (Some e # cs) = Some e"

section \<open>State and environment\<close>

record postgres_params =
  pg_host :: string
  pg_port :: int
  pg_database :: string
  pg_user :: string
  pg_password :: string

record redis_params =
  rd_host :: string
  rd_port :: int
  rd_decode_responses :: bool

record rabbitmq_params =
  mq_host :: string
  mq_port :: int
  mq_virtual_host :: string
  mq_username :: string
  mq_password :: string

text \<open>The attributes of \<^verbatim>\<open>HealthChecker\<close>, as \<^verbatim>\<open>__init__\<close> sets them.\<close>

record health_checker =
  service_name :: string
  service_version :: string
  service_port :: int
  startup_time :: int
  is_ready :: bool
  postgres_config :: postgres_params
  redis_config :: redis_params
  rabbitmq_config :: rabbitmq_params

text \<open>What the three drivers do when \<^verbatim>\<open>check_database\<close>, \<^verbatim>\<open>check_redis\<close> and \<^verbatim>\<open>check_rabbitmq\<close> call them.\<close>

record pg_behaviour =
  pg_connect :: call
  pg_cursor :: call
  pg_execute :: call
  pg_cursor_close :: call
  pg_conn_close :: call

record redis_behaviour =
  rd_Redis :: call
  rd_ping :: call

record pika_behaviour =
  mq_PlainCredentials :: call
  mq_ConnectionParameters :: call
  mq_BlockingConnection :: call
  mq_close :: call

record psutil_snapshot =
  ps_cpu_percent :: rat
  ps_memory_percent :: rat
  ps_memory_used :: int
  ps_disk_percent :: rat
  ps_pid :: int
  ps_num_threads :: int

text \<open>
  The world outside the process during one call: \<open>utcnow env k\<close> is what the \<open>k\<close>-th call of
  \<^verbatim>\<open>datetime.utcnow()\<close> returns (counting from 0), \<open>getenv\<close> is the process environment,
  \<open>psutil\<close> is what the \<^verbatim>\<open>psutil\<close> calls report, the drivers answer according to the
  connection parameters they are given, and \<open>py_print env line\<close> is what \<^verbatim>\<open>print(line)\<close> does:
  it writes the line and returns, or raises (standard output closed, or unable to encode
  the line). The clock, \<^verbatim>\<open>os.getenv\<close> and the \<^verbatim>\<open>psutil\<close> calls are taken to return; the driver
  calls and \<^verbatim>\<open>print\<close> may raise.
\<close>

record env =
  utcnow :: "nat \<Rightarrow> int"
  getenv :: "string \<Rightarrow> string option"
  psutil :: psutil_snapshot
  psycopg2 :: "postgres_params \<Rightarrow> pg_behaviour"
  redis :: "redis_params \<Rightarrow> redis_behaviour"
  pika :: "rabbitmq_params \<Rightarrow> pika_behaviour"
  py_print :: "string \<Rightarrow> call"

record http_response =
  status_code :: nat
  content :: json

text \<open>
  What a call leaves behind: the value it returns or the exception that leaves it, and the
  lines it printed to standard output.
\<close>

type_synonym 'a outcome = "(py_exc + 'a) \<times> string list"

section \<open>\<^verbatim>\<open>shared/health_check.py\<close>\<close>

subsection \<open>Construction\<close>

text \<open>
  \<^verbatim>\<open>os.getenv(name, default)\<close> with a string default, and \<^verbatim>\<open>int(os.getenv(name, default))\<close>
  with an integer default. The builtin \<^verbatim>\<open>int\<close> applied to a string is the parameter
  \<open>py_int\<close> (\<open>None\<close> when it raises \<^verbatim>\<open>ValueError\<close>); applied to the integer default it
  returns it. The \<^verbatim>\<open>ValueError\<close> carries the rejected text.
\<close>

definition getenv_str :: "env \<Rightarrow> string \<Rightarrow> string \<Rightarrow> string" where
  "getenv_str e name dflt = (case getenv e name of None \<Rightarrow> dflt | Some v \<Rightarrow> v)"

definition getenv_int :: "(string \<Rightarrow> int option) \<Rightarrow> env \<Rightarrow> string \<Rightarrow> int \<Rightarrow> py_exc + int" where
  "getenv_int py_int e name dflt =
     (case getenv e name of
        None \<Rightarrow> Inr dflt
      | Some v \<Rightarrow> (case py_int v of
                    None \<Rightarrow> Inl (PyException ''ValueError'' v)
                  | Some n \<Rightarrow> Inr n))"

definition HealthChecker_init ::
  "(string \<Rightarrow> int option) \<Rightarrow> string \<Rightarrow> string \<Rightarrow> env \<Rightarrow> py_exc + health_checker" where
  "HealthChecker_init py_int name version e =
     (case getenv_int py_int e ''SERVICE_PORT'' 8000 of
        Inl x \<Rightarrow> Inl x
      | Inr port \<Rightarrow>
     (case getenv_int py_int e ''POSTGRES_PORT'' 5432 of
        Inl x \<Rightarrow> Inl x
      | Inr pgport \<Rightarrow>
     (case getenv_int py_int e ''REDIS_PORT'' 6379 of
        Inl x \<Rightarrow> Inl x
      | Inr rdport \<Rightarrow>
     (case getenv_int py_int e ''RABBITMQ_PORT'' 5672 of
        Inl x \<Rightarrow> Inl x
      | Inr mqport \<Rightarrow>
        Inr \<lparr> service_name = name,
              service_version = version,
              service_port = port,
              startup_time = utcnow e 0,
              is_ready = False,
              postgres_config =
                \<lparr> pg_host = getenv_str e ''POSTGRES_HOST'' ''localhost'',
                  pg_port = pgport,
                  pg_database = getenv_str e ''POSTGRES_DB'' ''aktienanalyse_event_store'',
                  pg_user = getenv_str e ''POSTGRES_USER'' ''stock_analysis'',
                  pg_password = getenv_str e ''POSTGRES_PASSWORD'' ''secure_password'' \<rparr>,
              redis_config =
                \<lparr> rd_host = getenv_str e ''REDIS_HOST'' ''localhost'',
                  rd_port = rdport,
                  rd_decode_responses = True \<rparr>,
              rabbitmq_config =
                \<lparr> mq_host = getenv_str e ''RABBITMQ_HOST'' ''localhost'',
                  mq_port = mqport,
                  mq_virtual_host = getenv_str e ''RABBITMQ_VHOST'' ''/'',
                  mq_username = getenv_str e ''RABBITMQ_USER'' ''stock_analysis'',
                  mq_password = getenv_str e ''RABBITMQ_PASSWORD'' ''stock_password'' \<rparr> \<rparr>))))"

subsection \<open>Dependency probes\<close>

text \<open>
  \<^verbatim>\<open>try: <calls>; return True  except Exception as e: print(f"<label> check failed: {e}"); return False\<close>.
  An exception that is not an instance of \<^verbatim>\<open>Exception\<close> passes the handler. Inside the
  handler nothing is guarded: when building the message (\<^verbatim>\<open>str(e)\<close>) raises, or \<^verbatim>\<open>print\<close>
  raises, that exception leaves the probe and \<^verbatim>\<open>return False\<close> is not reached.
\<close>

definition probe :: "env \<Rightarrow> string \<Rightarrow> call list \<Rightarrow> bool outcome" where
  "probe e label calls =
     (case first_raise calls of
        None \<Rightarrow> (Inr True, [])
      | Some x \<Rightarrow>
          if is_Exception x then
            (case str_exc x of
               Inl y \<Rightarrow> (Inl y, [])
             | Inr m \<Rightarrow>
                 (let line = label @ '' check failed: '' @ m
                  in case py_print e line of
                       None \<Rightarrow> (Inr False, [line])
                     | Some y \<Rightarrow> (Inl y, [])))
          else (Inl x, []))"

text \<open>
  The driver calls inside each \<^verbatim>\<open>try\<close> block, in the order of the source:
  \<^verbatim>\<open>psycopg2.connect\<close>, \<^verbatim>\<open>conn.cursor\<close>, \<^verbatim>\<open>cursor.execute("SELECT 1")\<close>, \<^verbatim>\<open>cursor.close\<close>,
  \<^verbatim>\<open>conn.close\<close>; \<^verbatim>\<open>redis.Redis\<close>, \<^verbatim>\<open>r.ping\<close>; \<^verbatim>\<open>pika.PlainCredentials\<close>,
  \<^verbatim>\<open>pika.ConnectionParameters\<close>, \<^verbatim>\<open>pika.BlockingConnection\<close>, \<^verbatim>\<open>connection.close\<close>.
\<close>

definition database_calls :: "health_checker \<Rightarrow> env \<Rightarrow> call list" where
  "database_calls hc e =
     (let b = psycopg2 e (postgres_config hc)
      in [pg_connect b, pg_cursor b, pg_execute b, pg_cursor_close b, pg_conn_close b])"

definition redis_calls :: "health_checker \<Rightarrow> env \<Rightarrow> call list" where
  "redis_calls hc e =
     (let b = redis e (redis_config hc)
      in [rd_Redis b, rd_ping b])"

definition rabbitmq_calls :: "health_checker \<Rightarrow> env \<Rightarrow> call list" where
  "rabbitmq_calls hc e =
     (let b = pika e (rabbitmq_config hc)
      in [mq_PlainCredentials b, mq_ConnectionParameters b, mq_BlockingConnection b, mq_close b])"

definition check_database :: "health_checker \<Rightarrow> env \<Rightarrow> bool outcome" where
  "check_database hc e = probe e ''Database'' (database_calls hc e)"

definition check_redis :: "health_checker \<Rightarrow> env \<Rightarrow> bool outcome" where
  "check_redis hc e = probe e ''Redis'' (redis_calls hc e)"

definition check_rabbitmq :: "health_checker \<Rightarrow> env \<Rightarrow> bool outcome" where
  "check_rabbitmq hc e = probe e ''RabbitMQ'' (rabbitmq_calls hc e)"

subsection \<open>Status reports\<close>

definition get_system_metrics :: "env \<Rightarrow> json" where
  "get_system_metrics e =
     JObj [(''cpu_percent'', JNum (ps_cpu_percent (psutil e))),
           (''memory_percent'', JNum (ps_memory_percent (psutil e))),
           (''memory_mb'', JNum (of_int (ps_memory_used (psutil e)) / (1024 * 1024))),
           (''disk_percent'', JNum (ps_disk_percent (psutil e))),
           (''pid'', JInt (ps_pid (psutil e))),
           (''threads'', JInt (ps_num_threads (psutil e)))]"

text \<open>\<^verbatim>\<open>timedelta.total_seconds()\<close> of a difference of \<open>us\<close> microseconds.\<close>

definition total_seconds :: "int \<Rightarrow> rat" where
  "total_seconds us = of_int us / 1000000"

definition get_health_status :: "health_checker \<Rightarrow> env \<Rightarrow> json" where
  "get_health_status hc e =
     (let uptime = total_seconds (utcnow e 0 - startup_time hc)
      in JObj [(''status'', JStr (if is_ready hc then ''healthy'' else ''starting'')),
               (''service'', JStr (service_name hc)),
               (''version'', JStr (service_version hc)),
               (''timestamp'', JTime (utcnow e 1)),
               (''uptime_seconds'', JNum uptime),
               (''metrics'', get_system_metrics e),
               (''details'',
                  JObj [(''ready'', JBool (is_ready hc)),
                        (''port'', JInt (service_port hc)),
                        (''environment'', JStr (getenv_str e ''NODE_ENV'' ''development''))])])"

text \<open>
  The three probes are awaited one after the other while the dict literal is built; an
  exception leaving a probe leaves \<^verbatim>\<open>get_readiness_status\<close> too.
\<close>

definition get_readiness_status :: "health_checker \<Rightarrow> env \<Rightarrow> json outcome" where
  "get_readiness_status hc e =
     (case check_database hc e of
        (Inl x, out1) \<Rightarrow> (Inl x, out1)
      | (Inr db, out1) \<Rightarrow>
     (case check_redis hc e of
        (Inl x, out2) \<Rightarrow> (Inl x, out1 @ out2)
      | (Inr rd, out2) \<Rightarrow>
     (case check_rabbitmq hc e of
        (Inl x, out3) \<Rightarrow> (Inl x, out1 @ out2 @ out3)
      | (Inr mq, out3) \<Rightarrow>
          (let checks = [(''service'', JBool (is_ready hc)),
                         (''database'', JBool db),
                         (''redis'', JBool rd),
                         (''rabbitmq'', JBool mq)];
               all_ready = all_values checks
           in (Inr (JObj [(''ready'', JBool all_ready),
                          (''service'', JStr (service_name hc)),
                          (''checks'', JObj checks),
                          (''timestamp'', JTime (utcnow e 0))]),
               out1 @ out2 @ out3)))))"

subsection \<open>The handlers of \<^verbatim>\<open>create_health_app\<close>\<close>

text \<open>\<^verbatim>\<open>startup_event\<close>: after the pause, the one assignment to \<^verbatim>\<open>self.is_ready\<close>.\<close>

definition startup_event :: "health_checker \<Rightarrow> health_checker" where
  "startup_event hc = hc\<lparr>is_ready := True\<rparr>"

definition HTTP_200_OK :: nat where
  "HTTP_200_OK = 200"

definition HTTP_503_SERVICE_UNAVAILABLE :: nat where
  "HTTP_503_SERVICE_UNAVAILABLE = 503"

definition health_check :: "health_checker \<Rightarrow> env \<Rightarrow> http_response outcome" where
  "health_check hc e =
     (let status_data = get_health_status hc e;
          code = (if is_ready hc then HTTP_200_OK else HTTP_503_SERVICE_UNAVAILABLE)
      in (Inr \<lparr>status_code = code, content = status_data\<rparr>, []))"

text \<open>A handler that returns a dict is answered by the framework with status 200.\<close>

definition liveness_check :: "health_checker \<Rightarrow> env \<Rightarrow> http_response outcome" where
  "liveness_check hc e =
     (Inr \<lparr>status_code = HTTP_200_OK,
           content = JObj [(''status'', JStr ''alive''),
                           (''service'', JStr (service_name hc)),
                           (''timestamp'', JTime (utcnow e 0))]\<rparr>, [])"

text \<open>\<^verbatim>\<open>status_data["ready"]\<close> raises \<^verbatim>\<open>KeyError\<close> on a dict without that key.\<close>

definition readiness_check :: "health_checker \<Rightarrow> env \<Rightarrow> http_response outcome" where
  "readiness_check hc e =
     (case get_readiness_status hc e of
        (Inl x, out) \<Rightarrow> (Inl x, out)
      | (Inr status_data, out) \<Rightarrow>
          (case field ''ready'' status_data of
             None \<Rightarrow> (Inl (PyException ''KeyError'' ''ready''), out)
           | Some r \<Rightarrow>
               (Inr \<lparr>status_code = (if truthy r then HTTP_200_OK else HTTP_503_SERVICE_UNAVAILABLE),
                     content = status_data\<rparr>, out)))"

definition root :: "health_checker \<Rightarrow> env \<Rightarrow> http_response outcome" where
  "root hc e =
     (Inr \<lparr>status_code = HTTP_200_OK,
           content = JObj [(''service'', JStr (service_name hc)),
                           (''version'', JStr (service_version hc)),
                           (''health_endpoint'', JStr ''/health''),
                           (''liveness_endpoint'', JStr ''/health/live''),
                           (''readiness_endpoint'', JStr ''/health/ready''),
                           (''api_docs'', JStr ''/docs'')]\<rparr>, [])"

subsection \<open>The life of one process\<close>

text \<open>
  After construction the process sees the startup event and requests, each request in the
  environment of its moment. No handler assigns to an attribute of the checker, so a
  request leaves the state as it found it; the startup event is the only writer.
\<close>

datatype request = GET_health | GET_health_live | GET_health_ready | GET_root

datatype event = Startup | Request request env

fun dispatch :: "health_checker \<Rightarrow> request \<Rightarrow> env \<Rightarrow> http_response outcome" where
  "dispatch hc GET_health e = health_check hc e"
| "dispatch hc GET_health_live e = liveness_check hc e"
| "dispatch hc GET_health_ready e = readiness_check hc e"
| "dispatch hc GET_root e = root hc e"

fun step :: "health_checker \<Rightarrow> event \<Rightarrow> health_checker \<times> http_response outcome option" where
  "step hc Startup = (startup_event hc, None)"
| "step hc (Request r e) = (hc, Some (dispatch hc r e))"

fun run :: "health_checker \<Rightarrow> event list \<Rightarrow> health_checker" where
  "run hc [] = hc"
| "run hc (ev # evs) = run (fst (step hc ev)) evs"

subsection \<open>Reading a reply\<close>

definition code_of :: "http_response outcome \<Rightarrow> nat option" where
  "code_of r = (case fst r of Inl x \<Rightarrow> None | Inr resp \<Rightarrow> Some (status_code resp))"

definition body_field :: "string \<Rightarrow> http_response outcome \<Rightarrow> json option" where
  "body_field k r = (case fst r of Inl x \<Rightarrow> None | Inr resp \<Rightarrow> field k (content resp))"

definition checks_keys :: "http_response outcome \<Rightarrow> string list" where
  "checks_keys r = (case body_field ''checks'' r of Some c \<Rightarrow> keys c | None \<Rightarrow> [])"

definition uptime_of :: "http_response outcome \<Rightarrow> rat option" where
  "uptime_of r = (case body_field ''uptime_seconds'' r of Some (JNum q) \<Rightarrow> Some q | _ \<Rightarrow> None)"

section \<open>\<^verbatim>\<open>services/intelligent-core-service/health.py\<close>\<close>

text \<open>The module-level variables; \<^verbatim>\<open>SERVICE_NAME\<close> and \<^verbatim>\<open>SERVICE_VERSION\<close> are constants.\<close>

record ics_module =
  ics_SERVICE_PORT :: int
  ics_startup_time :: int
  ics_is_ready :: bool

definition SERVICE_NAME :: string where
  "SERVICE_NAME = ''intelligent-core-service''"

definition SERVICE_VERSION :: string where
  "SERVICE_VERSION = ''1.0.0''"

definition ics_import :: "(string \<Rightarrow> int option) \<Rightarrow> env \<Rightarrow> py_exc + ics_module" where
  "ics_import py_int e =
     (case getenv_int py_int e ''SERVICE_PORT'' 8001 of
        Inl x \<Rightarrow> Inl x
      | Inr port \<Rightarrow>
          Inr \<lparr> ics_SERVICE_PORT = port, ics_startup_time = utcnow e 0, ics_is_ready = False \<rparr>)"

text \<open>
  The three check functions of this module are placeholders: whatever the environment, they
  return \<^verbatim>\<open>True\<close>.
\<close>

definition check_database_connection :: "env \<Rightarrow> bool" where
  "check_database_connection e = True"

definition check_redis_connection :: "env \<Rightarrow> bool" where
  "check_redis_connection e = True"

definition check_rabbitmq_connection :: "env \<Rightarrow> bool" where
  "check_rabbitmq_connection e = True"

definition ics_startup_event :: "ics_module \<Rightarrow> ics_module" where
  "ics_startup_event m = m\<lparr>ics_is_ready := True\<rparr>"

definition ics_health_check :: "ics_module \<Rightarrow> env \<Rightarrow> http_response outcome" where
  "ics_health_check m e =
     (let uptime = total_seconds (utcnow e 0 - ics_startup_time m);
          health_status =
            JObj [(''status'', JStr (if ics_is_ready m then ''healthy'' else ''starting'')),
                  (''service'', JStr SERVICE_NAME),
                  (''version'', JStr SERVICE_VERSION),
                  (''timestamp'', JTime (utcnow e 1)),
                  (''uptime_seconds'', JNum uptime),
                  (''details'',
                     JObj [(''ready'', JBool (ics_is_ready m)),
                           (''cpu_percent'', JNum (ps_cpu_percent (psutil e))),
                           (''memory_percent'', JNum (ps_memory_percent (psutil e))),
                           (''pid'', JInt (ps_pid (psutil e)))])];
          code = (if ics_is_ready m then HTTP_200_OK else HTTP_503_SERVICE_UNAVAILABLE)
      in (Inr \<lparr>status_code = code, content = health_status\<rparr>, []))"

definition ics_liveness_check :: "ics_module \<Rightarrow> env \<Rightarrow> http_response outcome" where
  "ics_liveness_check m e =
     (Inr \<lparr>status_code = HTTP_200_OK,
           content = JObj [(''status'', JStr ''alive''),
                           (''service'', JStr SERVICE_NAME),
                           (''timestamp'', JTime (utcnow e 0))]\<rparr>, [])"

definition ics_readiness_check :: "ics_module \<Rightarrow> env \<Rightarrow> http_response outcome" where
  "ics_readiness_check m e =
     (let checks = [(''database'', JBool (check_database_connection e)),
                    (''redis'', JBool (check_redis_connection e)),
                    (''rabbitmq'', JBool (check_rabbitmq_connection e))];
          all_ready = (all_values checks \<and> ics_is_ready m)
      in (Inr \<lparr>status_code = (if all_ready then HTTP_200_OK else HTTP_503_SERVICE_UNAVAILABLE),
                content = JObj [(''ready'', JBool all_ready),
                                (''service'', JStr SERVICE_NAME),
                                (''checks'', JObj checks),
                                (''timestamp'', JTime (utcnow e 0))]\<rparr>, []))"

definition ics_root :: "ics_module \<Rightarrow> env \<Rightarrow> http_response outcome" where
  "ics_root m e =
     (Inr \<lparr>status_code = HTTP_200_OK,
           content = JObj [(''service'', JStr SERVICE_NAME),
                           (''version'', JStr SERVICE_VERSION),
                           (''description'',
                              JStr ''Intelligent Core Service - Analysis and Intelligence Engine''),
                           (''health_endpoint'', JStr ''/health''),
                           (''api_docs'', JStr ''/docs'')]\<rparr>, [])"

datatype ics_event = Ics_Startup | Ics_Request request env

fun ics_dispatch :: "ics_module \<Rightarrow> request \<Rightarrow> env \<Rightarrow> http_response outcome" where
  "ics_dispatch m GET_health e = ics_health_check m e"
| "ics_dispatch m GET_health_live e = ics_liveness_check m e"
| "ics_dispatch m GET_health_ready e = ics_readiness_check m e"
| "ics_dispatch m GET_root e = ics_root m e"

fun ics_step :: "ics_module \<Rightarrow> ics_event \<Rightarrow> ics_module \<times> http_response outcome option" where
  "ics_step m Ics_Startup = (ics_startup_event m, None)"
| "ics_step m (Ics_Request r e) = (m, Some (ics_dispatch m r e))"

fun ics_run :: "ics_module \<Rightarrow> ics_event list \<Rightarrow> ics_module" where
  "ics_run m [] = m"
| "ics_run m (ev # evs) = ics_run (fst (ics_step m ev)) evs"

section \<open>Predicates and sample inputs\<close>

text \<open>
  The \<^verbatim>\<open>try\<close> block of a probe ends in a way its handler deals with: every call returns, or
  the first call that raises raises an instance of \<^verbatim>\<open>Exception\<close> whose message \<^verbatim>\<open>str(e)\<close>
  gives and \<^verbatim>\<open>print\<close> writes without raising.
\<close>

definition caught :: "env \<Rightarrow> string \<Rightarrow> call list \<Rightarrow> bool" where
  "caught e label calls =
     (case first_raise calls of
        None \<Rightarrow> True
      | Some x \<Rightarrow>
          is_Exception x \<and>
          (case str_exc x of
             Inl y \<Rightarrow> False
           | Inr m \<Rightarrow> py_print e (label @ '' check failed: '' @ m) = None))"

text \<open>The variables that \<^verbatim>\<open>__init__\<close> passes through \<^verbatim>\<open>int\<close>.\<close>

definition port_variables :: "string list" where
  "port_variables = [''SERVICE_PORT'', ''POSTGRES_PORT'', ''REDIS_PORT'', ''RABBITMQ_PORT'']"

text \<open>
  A reader of plain decimal numerals, standing for \<^verbatim>\<open>int\<close> on strings in the examples: on a
  non-empty string of the digits 0 to 9 it gives the number, on the other strings used below
  (\<open>''sixty''\<close>) it gives \<open>None\<close>, as \<^verbatim>\<open>int\<close> raises there.
\<close>

fun digits_val :: "int \<Rightarrow> string \<Rightarrow> int option" where
  "digits_val acc [] = Some acc"
| "digits_val acc (c # cs) =
     (let n = (of_char c :: nat)
      in if 48 \<le> n \<and> n \<le> 57 then digits_val (10 * acc + (int n - 48)) cs else None)"

definition decimal_int :: "string \<Rightarrow> int option" where
  "decimal_int s = (if s = [] then None else digits_val 0 s)"

definition quiet_psutil :: psutil_snapshot where
  "quiet_psutil =
     \<lparr> ps_cpu_percent = 3, ps_memory_percent = 41, ps_memory_used = 2147483648,
       ps_disk_percent = 17, ps_pid = 4711, ps_num_threads = 4 \<rparr>"

text \<open>
  An environment with no variable set, every driver call returning, \<^verbatim>\<open>print\<close> writing every
  line, and the clock at \<open>t\<close> (one microsecond later at each reading).
\<close>

definition all_up :: "int \<Rightarrow> env" where
  "all_up t =
     \<lparr> utcnow = (\<lambda>k. t + int k),
       getenv = (\<lambda>name. None),
       psutil = quiet_psutil,
       psycopg2 = (\<lambda>cfg. \<lparr> pg_connect = None, pg_cursor = None, pg_execute = None,
                            pg_cursor_close = None, pg_conn_close = None \<rparr>),
       redis = (\<lambda>cfg. \<lparr> rd_Redis = None, rd_ping = None \<rparr>),
       pika = (\<lambda>cfg. \<lparr> mq_PlainCredentials = None, mq_ConnectionParameters = None,
                        mq_BlockingConnection = None, mq_close = None \<rparr>),
       py_print = (\<lambda>line. None) \<rparr>"

text \<open>The same with the broker refusing the connection.\<close>

definition broker_down :: "int \<Rightarrow> env" where
  "broker_down t =
     (all_up t)\<lparr> pika := (\<lambda>cfg. \<lparr> mq_PlainCredentials = None, mq_ConnectionParameters = None,
                   mq_BlockingConnection = Some (PyException ''AMQPConnectionError'' ''refused''),
                   mq_close = None \<rparr>) \<rparr>"

text \<open>The same with \<^verbatim>\<open>KeyboardInterrupt\<close> arriving during \<^verbatim>\<open>psycopg2.connect\<close>.\<close>

definition interrupted :: "int \<Rightarrow> env" where
  "interrupted t =
     (all_up t)\<lparr> psycopg2 := (\<lambda>cfg. \<lparr> pg_connect = Some (PyBaseException ''KeyboardInterrupt'' []),
                   pg_cursor = None, pg_execute = None,
                   pg_cursor_close = None, pg_conn_close = None \<rparr>) \<rparr>"

text \<open>The same with \<^verbatim>\<open>REDIS_PORT=sixty\<close> in the process environment.\<close>

definition bad_port :: "int \<Rightarrow> env" where
  "bad_port t =
     (all_up t)\<lparr> getenv := (\<lambda>name. if name = ''REDIS_PORT'' then Some ''sixty'' else None) \<rparr>"

text \<open>The checker that \<^verbatim>\<open>HealthChecker("example-service")\<close> builds in \<open>all_up 5000000\<close>.\<close>

definition example_checker :: health_checker where
  "example_checker =
     \<lparr> service_name = ''example-service'',
       service_version = ''1.0.0'',
       service_port = 8000,
       startup_time = 5000000,
       is_ready = False,
       postgres_config =
         \<lparr> pg_host = ''localhost'', pg_port = 5432, pg_database = ''aktienanalyse_event_store'',
           pg_user = ''stock_analysis'', pg_password = ''secure_password'' \<rparr>,
       redis_config = \<lparr> rd_host = ''localhost'', rd_port = 6379, rd_decode_responses = True \<rparr>,
       rabbitmq_config =
         \<lparr> mq_host = ''localhost'', mq_port = 5672, mq_virtual_host = ''/'',
           mq_username = ''stock_analysis'', mq_password = ''stock_password'' \<rparr> \<rparr>"

section \<open>Auxiliary facts\<close>

lemma first_raise_None_iff: "first_raise cs = None \<longleftrightarrow> list_all (\<lambda>c. c = None) cs"
  by (induction cs rule: first_raise.induct) auto

lemma probe_caught: "caught e l cs \<Longrightarrow> fst (probe e l cs) = Inr (first_raise cs = None)"
  by (auto simp: probe_def caught_def split: option.splits sum.splits)

lemma probe_returns_iff: "(\<exists>b. fst (probe e l cs) = Inr b) \<longleftrightarrow> caught e l cs"
  by (auto simp: probe_def caught_def Let_def split: option.splits sum.splits)

lemma probe_not_Exception:
  "first_raise cs = Some x \<Longrightarrow> \<not> is_Exception x \<Longrightarrow> probe e l cs = (Inl x, [])"
  by (simp add: probe_def)

lemma probe_str_raises:
  "first_raise cs = Some x \<Longrightarrow> is_Exception x \<Longrightarrow> str_exc x = Inl y \<Longrightarrow>
     probe e l cs = (Inl y, [])"
  by (simp add: probe_def)

lemma probe_print_raises:
  "first_raise cs = Some x \<Longrightarrow> is_Exception x \<Longrightarrow> str_exc x = Inr m \<Longrightarrow>
     py_print e (l @ '' check failed: '' @ m) = Some y \<Longrightarrow> probe e l cs = (Inl y, [])"
  by (simp add: probe_def)

lemma probe_True: "fst (probe e l cs) = Inr True \<Longrightarrow> probe e l cs = (Inr True, [])"
  by (auto simp: probe_def Let_def split: option.splits sum.splits if_splits)

lemma readiness_raises_database:
  "fst (check_database hc e) = Inl x \<Longrightarrow> fst (readiness_check hc e) = Inl x"
  by (cases "check_database hc e") (simp add: readiness_check_def get_readiness_status_def)

lemma readiness_raises_redis:
  "fst (check_database hc e) = Inr db \<Longrightarrow> fst (check_redis hc e) = Inl x \<Longrightarrow>
     fst (readiness_check hc e) = Inl x"
  by (cases "check_database hc e"; cases "check_redis hc e")
     (simp add: readiness_check_def get_readiness_status_def)

lemma readiness_raises_rabbitmq:
  "fst (check_database hc e) = Inr db \<Longrightarrow> fst (check_redis hc e) = Inr rd \<Longrightarrow>
     fst (check_rabbitmq hc e) = Inl x \<Longrightarrow> fst (readiness_check hc e) = Inl x"
  by (cases "check_database hc e"; cases "check_redis hc e"; cases "check_rabbitmq hc e")
     (simp add: readiness_check_def get_readiness_status_def)

lemma run_eq: "run hc evs = (if Startup \<in> set evs then hc\<lparr>is_ready := True\<rparr> else hc)"
proof (induction evs arbitrary: hc)
  case Nil
  show ?case by simp
next
  case (Cons ev evs)
  show ?case by (cases ev) (simp_all add: Cons.IH startup_event_def)
qed

lemma run_startup_time: "startup_time (run hc evs) = startup_time hc"
  by (simp add: run_eq)

lemma ics_run_eq:
  "ics_run m evs = (if Ics_Startup \<in> set evs then m\<lparr>ics_is_ready := True\<rparr> else m)"
proof (induction evs arbitrary: m)
  case Nil
  show ?case by simp
next
  case (Cons ev evs)
  show ?case by (cases ev) (simp_all add: Cons.IH ics_startup_event_def)
qed

lemma readiness_of_checks:
  assumes "fst (check_database hc e) = Inr db"
      and "fst (check_redis hc e) = Inr rd"
      and "fst (check_rabbitmq hc e) = Inr mq"
  shows "fst (readiness_check hc e) =
           Inr \<lparr>status_code = (if is_ready hc \<and> db \<and> rd \<and> mq then 200 else 503),
                content = JObj [(''ready'', JBool (is_ready hc \<and> db \<and> rd \<and> mq)),
                                (''service'', JStr (service_name hc)),
                                (''checks'', JObj [(''service'', JBool (is_ready hc)),
                                                   (''database'', JBool db),
                                                   (''redis'', JBool rd),
                                                   (''rabbitmq'', JBool mq)]),
                                (''timestamp'', JTime (utcnow e 0))]\<rparr>"
  using assms
  by (cases "check_database hc e"; cases "check_redis hc e"; cases "check_rabbitmq hc e")
     (simp add: readiness_check_def get_readiness_status_def all_values_def
                HTTP_200_OK_def HTTP_503_SERVICE_UNAVAILABLE_def)

lemma health_check_reply:
  "health_check hc e =
     (Inr \<lparr>status_code = (if is_ready hc then 200 else 503), content = get_health_status hc e\<rparr>, [])"
  by (simp add: health_check_def HTTP_200_OK_def HTTP_503_SERVICE_UNAVAILABLE_def)

lemma health_status_field:
  "field ''status'' (get_health_status hc e) = Some (JStr (if is_ready hc then ''healthy'' else ''starting''))"
  by (simp add: get_health_status_def)

lemma health_uptime_field:
  "field ''uptime_seconds'' (get_health_status hc e) = Some (JNum (total_seconds (utcnow e 0 - startup_time hc)))"
  by (simp add: get_health_status_def)

lemma uptime_of_health:
  "uptime_of (health_check hc e) = Some (total_seconds (utcnow e 0 - startup_time hc))"
  by (simp add: uptime_of_def body_field_def health_check_reply health_uptime_field)

lemma total_seconds_mono: "a \<le> b \<Longrightarrow> total_seconds a \<le> total_seconds b"
  by (simp add: total_seconds_def divide_right_mono)

lemma total_seconds_nonneg: "0 \<le> a \<Longrightarrow> 0 \<le> total_seconds a"
  by (simp add: total_seconds_def)

lemma getenv_int_Inl:
  "(\<exists>x. getenv_int py_int e var dflt = Inl x) \<longleftrightarrow> (\<exists>v. getenv e var = Some v \<and> py_int v = None)"
  by (auto simp: getenv_int_def split: option.splits)

lemma getenv_int_Inl_ValueError:
  "getenv_int py_int e var dflt = Inl x \<Longrightarrow> \<exists>w. x = PyException ''ValueError'' w"
  by (auto simp: getenv_int_def split: option.splits)

lemma init_raises_iff:
  "(\<exists>x. HealthChecker_init py_int name version e = Inl x) \<longleftrightarrow>
     (\<exists>x. getenv_int py_int e ''SERVICE_PORT'' 8000 = Inl x)
   \<or> (\<exists>x. getenv_int py_int e ''POSTGRES_PORT'' 5432 = Inl x)
   \<or> (\<exists>x. getenv_int py_int e ''REDIS_PORT'' 6379 = Inl x)
   \<or> (\<exists>x. getenv_int py_int e ''RABBITMQ_PORT'' 5672 = Inl x)"
  by (auto simp: HealthChecker_init_def split: sum.splits)

lemma init_raises_ValueError:
  "HealthChecker_init py_int name version e = Inl x \<Longrightarrow> \<exists>w. x = PyException ''ValueError'' w"
  by (auto simp: HealthChecker_init_def split: sum.splits dest: getenv_int_Inl_ValueError)

section \<open>Readiness\<close>

text \<open>
  C1. For every state of the checker and every environment in which each of the three
  probes returns a boolean (\<open>db\<close>, \<open>rd\<close> and \<open>mq\<close>), the readiness request answers with the
  breakdown of the four checks (the service check being \<open>is_ready\<close>), with \<open>ready\<close> false if
  and only if at least one of the four is false and true if and only if all four are true,
  and the status code is 200 exactly when \<open>ready\<close> is true and 503 otherwise.
\<close>

theorem readiness_iff_all_checks:
  assumes "fst (check_database hc e) = Inr db"
      and "fst (check_redis hc e) = Inr rd"
      and "fst (check_rabbitmq hc e) = Inr mq"
  shows "body_field ''checks'' (readiness_check hc e) =
           Some (JObj [(''service'', JBool (is_ready hc)), (''database'', JBool db),
                       (''redis'', JBool rd), (''rabbitmq'', JBool mq)])
       \<and> (body_field ''ready'' (readiness_check hc e) = Some (JBool False)
            \<longleftrightarrow> (\<not> is_ready hc \<or> \<not> db \<or> \<not> rd \<or> \<not> mq))
       \<and> (body_field ''ready'' (readiness_check hc e) = Some (JBool True)
            \<longleftrightarrow> (is_ready hc \<and> db \<and> rd \<and> mq))
       \<and> (code_of (readiness_check hc e) = Some 200
            \<longleftrightarrow> body_field ''ready'' (readiness_check hc e) = Some (JBool True))
       \<and> (code_of (readiness_check hc e) = Some 503
            \<longleftrightarrow> body_field ''ready'' (readiness_check hc e) \<noteq> Some (JBool True))"
  using readiness_of_checks [OF assms]
  by (simp add: body_field_def code_of_def)

theorem readiness_iff_all_checks_witness:
  "fst (check_database (startup_event example_checker) (broker_down 7000000)) = Inr True
 \<and> fst (check_redis (startup_event example_checker) (broker_down 7000000)) = Inr True
 \<and> fst (check_rabbitmq (startup_event example_checker) (broker_down 7000000)) = Inr False
 \<and> body_field ''ready'' (readiness_check (startup_event example_checker) (broker_down 7000000))
     = Some (JBool False)
 \<and> code_of (readiness_check (startup_event example_checker) (broker_down 7000000)) = Some 503"
proof -
  have d: "fst (check_database (startup_event example_checker) (broker_down 7000000)) = Inr True"
    by (simp add: check_database_def database_calls_def probe_def broker_down_def all_up_def)
  have r: "fst (check_redis (startup_event example_checker) (broker_down 7000000)) = Inr True"
    by (simp add: check_redis_def redis_calls_def probe_def broker_down_def all_up_def)
  have m: "fst (check_rabbitmq (startup_event example_checker) (broker_down 7000000)) = Inr False"
    by (simp add: check_rabbitmq_def rabbitmq_calls_def probe_def broker_down_def all_up_def)
  from readiness_iff_all_checks [OF d r m] d r m show ?thesis
    by simp
qed

text \<open>
  Without the condition the statement fails. In the checker as constructed the service
  check is false; when \<^verbatim>\<open>KeyboardInterrupt\<close> arrives during \<^verbatim>\<open>psycopg2.connect\<close> the database
  probe lets it out, and the readiness request gives no \<open>ready\<close> field and no status code.
\<close>

theorem readiness_unanswered_counterexample:
  "\<not> is_ready example_checker
 \<and> fst (readiness_check example_checker (interrupted 7000000))
     = Inl (PyBaseException ''KeyboardInterrupt'' [])
 \<and> body_field ''ready'' (readiness_check example_checker (interrupted 7000000)) = None
 \<and> code_of (readiness_check example_checker (interrupted 7000000)) = None"
  by (simp add: readiness_check_def get_readiness_status_def check_database_def database_calls_def
                probe_def interrupted_def all_up_def code_of_def body_field_def
                example_checker_def)

text \<open>
  C5. In a state where startup has completed, with the database and cache probes returning
  true and the broker probe returning false, the readiness request answers 503 with
  \<open>ready\<close> false and the checks \<open>service\<close>, \<open>database\<close> and \<open>redis\<close> true and \<open>rabbitmq\<close> false:
  the checks object has exactly the four keys \<open>service\<close>, \<open>database\<close>, \<open>redis\<close>, \<open>rabbitmq\<close>,
  and the body also carries the service name and a timestamp. What the request prints is
  what the broker probe prints.
\<close>

theorem readiness_scenario:
  assumes "is_ready hc"
      and "fst (check_database hc e) = Inr True"
      and "fst (check_redis hc e) = Inr True"
      and "fst (check_rabbitmq hc e) = Inr False"
  shows "readiness_check hc e =
           (Inr \<lparr>status_code = 503,
                 content = JObj [(''ready'', JBool False),
                                 (''service'', JStr (service_name hc)),
                                 (''checks'', JObj [(''service'', JBool True),
                                                    (''database'', JBool True),
                                                    (''redis'', JBool True),
                                                    (''rabbitmq'', JBool False)]),
                                 (''timestamp'', JTime (utcnow e 0))]\<rparr>,
            snd (check_rabbitmq hc e))
       \<and> checks_keys (readiness_check hc e) = [''service'', ''database'', ''redis'', ''rabbitmq'']"
proof -
  have d: "check_database hc e = (Inr True, [])"
    using assms(2) by (simp add: check_database_def probe_True)
  have r: "check_redis hc e = (Inr True, [])"
    using assms(3) by (simp add: check_redis_def probe_True)
  obtain out where m: "check_rabbitmq hc e = (Inr False, out)"
    using assms(4) by (cases "check_rabbitmq hc e") simp
  show ?thesis
    using assms(1) d r m
    by (simp add: readiness_check_def get_readiness_status_def all_values_def
                  checks_keys_def body_field_def
                  HTTP_200_OK_def HTTP_503_SERVICE_UNAVAILABLE_def)
qed

theorem readiness_scenario_witness:
  "is_ready (startup_event example_checker)
 \<and> fst (check_database (startup_event example_checker) (broker_down 7000000)) = Inr True
 \<and> fst (check_redis (startup_event example_checker) (broker_down 7000000)) = Inr True
 \<and> fst (check_rabbitmq (startup_event example_checker) (broker_down 7000000)) = Inr False
 \<and> first_raise (rabbitmq_calls (startup_event example_checker) (broker_down 7000000))
     = Some (PyException ''AMQPConnectionError'' ''refused'')
 \<and> readiness_check (startup_event example_checker) (broker_down 7000000) =
           (Inr \<lparr>status_code = 503,
                 content = JObj [(''ready'', JBool False),
                                 (''service'', JStr ''example-service''),
                                 (''checks'', JObj [(''service'', JBool True),
                                                    (''database'', JBool True),
                                                    (''redis'', JBool True),
                                                    (''rabbitmq'', JBool False)]),
                                 (''timestamp'', JTime 7000000)]\<rparr>,
            [''RabbitMQ check failed: refused''])"
proof -
  have s: "is_ready (startup_event example_checker)"
    by (simp add: startup_event_def)
  have d: "fst (check_database (startup_event example_checker) (broker_down 7000000)) = Inr True"
    by (simp add: check_database_def database_calls_def probe_def broker_down_def all_up_def)
  have r: "fst (check_redis (startup_event example_checker) (broker_down 7000000)) = Inr True"
    by (simp add: check_redis_def redis_calls_def probe_def broker_down_def all_up_def)
  have m: "fst (check_rabbitmq (startup_event example_checker) (broker_down 7000000)) = Inr False"
    by (simp add: check_rabbitmq_def rabbitmq_calls_def probe_def broker_down_def all_up_def)
  have x: "first_raise (rabbitmq_calls (startup_event example_checker) (broker_down 7000000))
             = Some (PyException ''AMQPConnectionError'' ''refused'')"
    by (simp add: rabbitmq_calls_def broker_down_def all_up_def)
  have p: "snd (check_rabbitmq (startup_event example_checker) (broker_down 7000000))
             = [''RabbitMQ check failed: refused'']"
    by (simp add: check_rabbitmq_def rabbitmq_calls_def probe_def broker_down_def all_up_def)
  from readiness_scenario [OF s d r m] s d r m x p show ?thesis
    by (simp add: startup_event_def example_checker_def broker_down_def all_up_def)
qed

text \<open>
  The checks object of that answer has no key \<open>cache\<close> and no key \<open>broker\<close>: the cache check
  is reported under \<open>redis\<close> and the broker check under \<open>rabbitmq\<close>.
\<close>

theorem readiness_scenario_counterexample:
  "code_of (readiness_check (startup_event example_checker) (broker_down 7000000)) = Some 503
 \<and> body_field ''ready'' (readiness_check (startup_event example_checker) (broker_down 7000000))
     = Some (JBool False)
 \<and> checks_keys (readiness_check (startup_event example_checker) (broker_down 7000000))
     = [''service'', ''database'', ''redis'', ''rabbitmq'']
 \<and> ''cache'' \<notin> set (checks_keys (readiness_check (startup_event example_checker) (broker_down 7000000)))
 \<and> ''broker'' \<notin> set (checks_keys (readiness_check (startup_event example_checker) (broker_down 7000000)))
 \<and> body_field ''checks'' (readiness_check (startup_event example_checker) (broker_down 7000000))
     \<noteq> Some (JObj [(''service'', JBool True), (''database'', JBool True),
                   (''cache'', JBool True), (''broker'', JBool False)])"
  by (simp add: readiness_check_def get_readiness_status_def check_database_def database_calls_def
                check_redis_def redis_calls_def check_rabbitmq_def rabbitmq_calls_def
                probe_def broker_down_def all_up_def code_of_def body_field_def checks_keys_def
                all_values_def startup_event_def example_checker_def
                HTTP_200_OK_def HTTP_503_SERVICE_UNAVAILABLE_def)

section \<open>Dependency probes\<close>

text \<open>
  C4. For each of the three probes: when every driver call returns, or the first call that
  raises raises an instance of \<^verbatim>\<open>Exception\<close> whose message \<^verbatim>\<open>str(e)\<close> gives and \<^verbatim>\<open>print\<close>
  writes without raising, the probe returns a boolean and lets no exception out: true when
  every call returns, false when one raises. When this holds of all three, the readiness
  request answers with a body whose checks object holds these booleans. When the first call
  that raises raises an exception that is not an instance of \<^verbatim>\<open>Exception\<close>, that exception
  leaves the probe; and an exception that leaves a probe leaves the readiness request, the
  probes before it having returned.
\<close>

theorem probes_catch_Exception:
  "(caught e ''Database'' (database_calls hc e) \<longrightarrow>
      fst (check_database hc e) = Inr (list_all (\<lambda>c. c = None) (database_calls hc e)))
 \<and> (caught e ''Redis'' (redis_calls hc e) \<longrightarrow>
      fst (check_redis hc e) = Inr (list_all (\<lambda>c. c = None) (redis_calls hc e)))
 \<and> (caught e ''RabbitMQ'' (rabbitmq_calls hc e) \<longrightarrow>
      fst (check_rabbitmq hc e) = Inr (list_all (\<lambda>c. c = None) (rabbitmq_calls hc e)))
 \<and> (caught e ''Database'' (database_calls hc e) \<and> caught e ''Redis'' (redis_calls hc e)
      \<and> caught e ''RabbitMQ'' (rabbitmq_calls hc e) \<longrightarrow>
      (\<exists>resp. fst (readiness_check hc e) = Inr resp)
      \<and> body_field ''checks'' (readiness_check hc e) =
          Some (JObj [(''service'', JBool (is_ready hc)),
                      (''database'', JBool (list_all (\<lambda>c. c = None) (database_calls hc e))),
                      (''redis'', JBool (list_all (\<lambda>c. c = None) (redis_calls hc e))),
                      (''rabbitmq'', JBool (list_all (\<lambda>c. c = None) (rabbitmq_calls hc e)))]))
 \<and> (first_raise (database_calls hc e) = Some x \<and> \<not> is_Exception x \<longrightarrow>
      fst (check_database hc e) = Inl x)
 \<and> (first_raise (redis_calls hc e) = Some x \<and> \<not> is_Exception x \<longrightarrow>
      fst (check_redis hc e) = Inl x)
 \<and> (first_raise (rabbitmq_calls hc e) = Some x \<and> \<not> is_Exception x \<longrightarrow>
      fst (check_rabbitmq hc e) = Inl x)
 \<and> (fst (check_database hc e) = Inl y \<longrightarrow> fst (readiness_check hc e) = Inl y)
 \<and> (fst (check_database hc e) = Inr db \<and> fst (check_redis hc e) = Inl y \<longrightarrow>
      fst (readiness_check hc e) = Inl y)
 \<and> (fst (check_database hc e) = Inr db \<and> fst (check_redis hc e) = Inr rd
      \<and> fst (check_rabbitmq hc e) = Inl y \<longrightarrow>
      fst (readiness_check hc e) = Inl y)"
proof -
  have d: "fst (check_database hc e) = Inr (list_all (\<lambda>c. c = None) (database_calls hc e))"
    if "caught e ''Database'' (database_calls hc e)"
    using that by (simp add: check_database_def probe_caught first_raise_None_iff)
  have r: "fst (check_redis hc e) = Inr (list_all (\<lambda>c. c = None) (redis_calls hc e))"
    if "caught e ''Redis'' (redis_calls hc e)"
    using that by (simp add: check_redis_def probe_caught first_raise_None_iff)
  have m: "fst (check_rabbitmq hc e) = Inr (list_all (\<lambda>c. c = None) (rabbitmq_calls hc e))"
    if "caught e ''RabbitMQ'' (rabbitmq_calls hc e)"
    using that by (simp add: check_rabbitmq_def probe_caught first_raise_None_iff)
  have all: "(\<exists>resp. fst (readiness_check hc e) = Inr resp)
      \<and> body_field ''checks'' (readiness_check hc e) =
          Some (JObj [(''service'', JBool (is_ready hc)),
                      (''database'', JBool (list_all (\<lambda>c. c = None) (database_calls hc e))),
                      (''redis'', JBool (list_all (\<lambda>c. c = None) (redis_calls hc e))),
                      (''rabbitmq'', JBool (list_all (\<lambda>c. c = None) (rabbitmq_calls hc e)))])"
    if "caught e ''Database'' (database_calls hc e)" "caught e ''Redis'' (redis_calls hc e)"
       "caught e ''RabbitMQ'' (rabbitmq_calls hc e)"
    using readiness_of_checks [OF d r m] that by (simp add: body_field_def)
  have nd: "fst (check_database hc e) = Inl x"
    if "first_raise (database_calls hc e) = Some x \<and> \<not> is_Exception x"
    using that by (simp add: check_database_def probe_not_Exception)
  have nr: "fst (check_redis hc e) = Inl x"
    if "first_raise (redis_calls hc e) = Some x \<and> \<not> is_Exception x"
    using that by (simp add: check_redis_def probe_not_Exception)
  have nm: "fst (check_rabbitmq hc e) = Inl x"
    if "first_raise (rabbitmq_calls hc e) = Some x \<and> \<not> is_Exception x"
    using that by (simp add: check_rabbitmq_def probe_not_Exception)
  from d r m all nd nr nm
       readiness_raises_database [of hc e y]
       readiness_raises_redis [of hc e db y]
       readiness_raises_rabbitmq [of hc e db rd y]
  show ?thesis by blast
qed

theorem probes_catch_Exception_witness:
  "caught (broker_down 7000000) ''Database'' (database_calls example_checker (broker_down 7000000))
 \<and> caught (broker_down 7000000) ''Redis'' (redis_calls example_checker (broker_down 7000000))
 \<and> caught (broker_down 7000000) ''RabbitMQ'' (rabbitmq_calls example_checker (broker_down 7000000))
 \<and> fst (check_database example_checker (broker_down 7000000)) = Inr True
 \<and> fst (check_redis example_checker (broker_down 7000000)) = Inr True
 \<and> fst (check_rabbitmq example_checker (broker_down 7000000)) = Inr False
 \<and> body_field ''checks'' (readiness_check example_checker (broker_down 7000000)) =
          Some (JObj [(''service'', JBool False), (''database'', JBool True),
                      (''redis'', JBool True), (''rabbitmq'', JBool False)])
 \<and> first_raise (database_calls example_checker (interrupted 7000000))
     = Some (PyBaseException ''KeyboardInterrupt'' [])
 \<and> \<not> is_Exception (PyBaseException ''KeyboardInterrupt'' [])
 \<and> fst (check_database example_checker (interrupted 7000000))
     = Inl (PyBaseException ''KeyboardInterrupt'' [])
 \<and> fst (readiness_check example_checker (interrupted 7000000))
     = Inl (PyBaseException ''KeyboardInterrupt'' [])"
proof -
  have d: "caught (broker_down 7000000) ''Database'' (database_calls example_checker (broker_down 7000000))"
    by (simp add: caught_def database_calls_def broker_down_def all_up_def)
  have r: "caught (broker_down 7000000) ''Redis'' (redis_calls example_checker (broker_down 7000000))"
    by (simp add: caught_def redis_calls_def broker_down_def all_up_def)
  have m: "caught (broker_down 7000000) ''RabbitMQ'' (rabbitmq_calls example_checker (broker_down 7000000))"
    by (simp add: caught_def rabbitmq_calls_def broker_down_def all_up_def)
  have dv: "list_all (\<lambda>c. c = None) (database_calls example_checker (broker_down 7000000))"
    by (simp add: database_calls_def broker_down_def all_up_def)
  have rv: "list_all (\<lambda>c. c = None) (redis_calls example_checker (broker_down 7000000))"
    by (simp add: redis_calls_def broker_down_def all_up_def)
  have mv: "\<not> list_all (\<lambda>c. c = None) (rabbitmq_calls example_checker (broker_down 7000000))"
    by (simp add: rabbitmq_calls_def broker_down_def all_up_def)
  have n: "\<not> is_ready example_checker"
    by (simp add: example_checker_def)
  have k: "first_raise (database_calls example_checker (interrupted 7000000))
             = Some (PyBaseException ''KeyboardInterrupt'' [])"
    by (simp add: database_calls_def interrupted_def all_up_def)
  have b: "\<not> is_Exception (PyBaseException ''KeyboardInterrupt'' [])"
    by simp
  from probes_catch_Exception [where hc = example_checker and e = "broker_down 7000000"]
       probes_catch_Exception [where hc = example_checker and e = "interrupted 7000000"
         and x = "PyBaseException ''KeyboardInterrupt'' []"
         and y = "PyBaseException ''KeyboardInterrupt'' []"]
       d r m dv rv mv n k b
  show ?thesis by simp
qed

text \<open>
  Without the condition the statement fails: an exception that is not an instance of
  \<^verbatim>\<open>Exception\<close> is not caught by \<^verbatim>\<open>except Exception\<close>; it leaves the probe and the readiness
  handler, and no response is produced.
\<close>

theorem probe_propagates_counterexample:
  "fst (check_database example_checker (interrupted 7000000)) = Inl (PyBaseException ''KeyboardInterrupt'' [])
 \<and> fst (readiness_check example_checker (interrupted 7000000)) = Inl (PyBaseException ''KeyboardInterrupt'' [])
 \<and> code_of (readiness_check example_checker (interrupted 7000000)) = None"
  by (simp add: readiness_check_def get_readiness_status_def check_database_def database_calls_def
                probe_def interrupted_def all_up_def code_of_def)

section \<open>Health and liveness\<close>

text \<open>
  C2. The health request always answers; with \<open>is_ready\<close> true the status code is 200 and
  the status field \<open>healthy\<close>, with \<open>is_ready\<close> false the status code is 503 and the status
  field \<open>starting\<close>; no other code or status value occurs, and two checkers that agree on
  \<open>is_ready\<close> get the same status code in any two environments.
\<close>

theorem health_status_code:
  "(is_ready hc \<longrightarrow> code_of (health_check hc e) = Some 200
       \<and> body_field ''status'' (health_check hc e) = Some (JStr ''healthy''))
 \<and> (\<not> is_ready hc \<longrightarrow> code_of (health_check hc e) = Some 503
       \<and> body_field ''status'' (health_check hc e) = Some (JStr ''starting''))
 \<and> code_of (health_check hc e) \<in> {Some 200, Some 503}
 \<and> body_field ''status'' (health_check hc e) \<in> {Some (JStr ''healthy''), Some (JStr ''starting'')}
 \<and> (is_ready hc' = is_ready hc \<longrightarrow> code_of (health_check hc' e') = code_of (health_check hc e))"
  by (simp add: health_check_reply health_status_field code_of_def body_field_def)

theorem health_status_code_witness:
  "is_ready (startup_event example_checker)
 \<and> code_of (health_check (startup_event example_checker) (broker_down 7000000)) = Some 200
 \<and> body_field ''status'' (health_check (startup_event example_checker) (broker_down 7000000))
     = Some (JStr ''healthy'')
 \<and> \<not> is_ready example_checker
 \<and> code_of (health_check example_checker (all_up 6000000)) = Some 503
 \<and> body_field ''status'' (health_check example_checker (all_up 6000000)) = Some (JStr ''starting'')
 \<and> is_ready (example_checker\<lparr>service_name := ''other'', startup_time := 0\<rparr>) = is_ready example_checker
 \<and> code_of (health_check (example_checker\<lparr>service_name := ''other'', startup_time := 0\<rparr>) (broker_down 1))
     = code_of (health_check example_checker (all_up 6000000))"
  using health_status_code [of "startup_event example_checker" "broker_down 7000000"]
        health_status_code [of example_checker "all_up 6000000"
                               "example_checker\<lparr>service_name := ''other'', startup_time := 0\<rparr>"
                               "broker_down 1"]
  by (simp add: startup_event_def example_checker_def)

text \<open>
  C6. The liveness request answers 200 with the body \<open>status = alive\<close>, the service name
  and a timestamp, raises nothing and prints nothing, in every state reached by any
  sequence of events; the answer is the same whatever \<open>is_ready\<close> is and whatever the three
  drivers, the process environment, \<^verbatim>\<open>psutil\<close> and \<^verbatim>\<open>print\<close> do: of the world outside, the
  handler reads the clock only. The same holds of the liveness handler of the intelligent core
  service.
\<close>

theorem liveness_unconditional:
  "liveness_check hc e =
     (Inr \<lparr>status_code = 200,
           content = JObj [(''status'', JStr ''alive''),
                           (''service'', JStr (service_name hc)),
                           (''timestamp'', JTime (utcnow e 0))]\<rparr>, [])
 \<and> liveness_check (hc\<lparr>is_ready := b\<rparr>)
       (e\<lparr>getenv := g, psutil := s, psycopg2 := p, redis := r, pika := q, py_print := w\<rparr>)
     = liveness_check hc e
 \<and> code_of (dispatch (run hc evs) GET_health_live e) = Some 200
 \<and> ics_liveness_check m e =
     (Inr \<lparr>status_code = 200,
           content = JObj [(''status'', JStr ''alive''),
                           (''service'', JStr ''intelligent-core-service''),
                           (''timestamp'', JTime (utcnow e 0))]\<rparr>, [])
 \<and> ics_liveness_check (m\<lparr>ics_is_ready := b\<rparr>)
       (e\<lparr>getenv := g, psutil := s, psycopg2 := p, redis := r, pika := q, py_print := w\<rparr>)
     = ics_liveness_check m e"
  by (simp add: liveness_check_def ics_liveness_check_def HTTP_200_OK_def SERVICE_NAME_def
                code_of_def)

text \<open>
  C7. The uptime reported by a health request is the clock reading of \<^verbatim>\<open>datetime.utcnow()\<close>
  at the request minus \<open>startup_time\<close>, which no event changes. When the reading of the
  earlier of two health requests is not before \<open>startup_time\<close> and the reading of the later
  one is not before that of the earlier, the earlier uptime is non-negative and the later
  uptime is not smaller, whatever events happen before and between them. (The value sent is
  the float nearest to this quotient; rounding keeps the order and the sign.)
\<close>

theorem uptime_monotone_with_clock:
  assumes "startup_time hc \<le> utcnow e1 0"
      and "utcnow e1 0 \<le> utcnow e2 0"
  shows "\<exists>u1 u2.
           uptime_of (dispatch (run hc evs1) GET_health e1) = Some u1
         \<and> uptime_of (dispatch (run hc (evs1 @ Request GET_health e1 # evs2)) GET_health e2) = Some u2
         \<and> u1 = total_seconds (utcnow e1 0 - startup_time hc)
         \<and> u2 = total_seconds (utcnow e2 0 - startup_time hc)
         \<and> 0 \<le> u1 \<and> u1 \<le> u2"
  using assms
  by (simp add: uptime_of_health run_startup_time total_seconds_mono total_seconds_nonneg)

theorem uptime_monotone_with_clock_witness:
  "startup_time example_checker \<le> utcnow (all_up 6000000) 0
 \<and> utcnow (all_up 6000000) 0 \<le> utcnow (broker_down 7500000) 0
 \<and> uptime_of (dispatch (run example_checker [Startup]) GET_health (all_up 6000000)) = Some 1
 \<and> uptime_of (dispatch (run example_checker
                  ([Startup] @ Request GET_health (all_up 6000000)
                     # [Request GET_health_ready (broker_down 7000000)]))
                GET_health (broker_down 7500000)) = Some (5 / 2)"
proof -
  have a: "startup_time example_checker \<le> utcnow (all_up 6000000) 0"
    by (simp add: example_checker_def all_up_def)
  have b: "utcnow (all_up 6000000) 0 \<le> utcnow (broker_down 7500000) 0"
    by (simp add: broker_down_def all_up_def)
  have v1: "total_seconds (utcnow (all_up 6000000) 0 - startup_time example_checker) = 1"
    by (simp add: total_seconds_def example_checker_def all_up_def)
  have v2: "total_seconds (utcnow (broker_down 7500000) 0 - startup_time example_checker) = 5 / 2"
    by (simp add: total_seconds_def example_checker_def all_up_def broker_down_def)
  from uptime_monotone_with_clock [OF a b, of "[Startup]" "[Request GET_health_ready (broker_down 7000000)]"]
       a b v1 v2
  show ?thesis by auto
qed

text \<open>
  \<^verbatim>\<open>datetime.utcnow()\<close> reads the wall clock. For the checker built at reading 5000000, a
  health request at reading 7000000 reports 2 seconds, a following one at reading 6000000
  reports 1 second, and one at reading 4000000 reports -1 second.
\<close>

theorem uptime_counterexample:
  "HealthChecker_init decimal_int ''example-service'' ''1.0.0'' (all_up 5000000) = Inr example_checker
 \<and> uptime_of (dispatch example_checker GET_health (all_up 7000000)) = Some 2
 \<and> uptime_of (dispatch (run example_checker [Request GET_health (all_up 7000000)])
                GET_health (all_up 6000000)) = Some 1
 \<and> (1::rat) < 2
 \<and> uptime_of (dispatch (run example_checker [Request GET_health (all_up 7000000),
                                             Request GET_health (all_up 6000000)])
                GET_health (all_up 4000000)) = Some (- 1)
 \<and> (- 1::rat) < 0"
  by (simp add: uptime_of_health total_seconds_def all_up_def example_checker_def
                HealthChecker_init_def getenv_int_def getenv_str_def)

section \<open>The readiness flag and the frame of the handlers\<close>

text \<open>
  C3. A constructed checker has \<open>is_ready\<close> false; the startup event sets it; no event
  turns a true \<open>is_ready\<close> false, so it stays true along every sequence of events; it only
  becomes true through the startup event; and after the startup event, following any
  sequence of events, a health request answers 200 with status \<open>healthy\<close>.
\<close>

theorem is_ready_monotone:
  "(HealthChecker_init py_int name version e0 = Inr hc0 \<longrightarrow> \<not> is_ready hc0)
 \<and> is_ready (startup_event hc)
 \<and> (is_ready hc \<longrightarrow> is_ready (fst (step hc ev)))
 \<and> (is_ready hc \<longrightarrow> is_ready (run hc evs))
 \<and> (\<not> is_ready hc \<and> is_ready (run hc evs) \<longrightarrow> Startup \<in> set evs)
 \<and> code_of (dispatch (run (startup_event hc) evs) GET_health e) = Some 200
 \<and> body_field ''status'' (dispatch (run (startup_event hc) evs) GET_health e) = Some (JStr ''healthy'')"
proof -
  have init: "HealthChecker_init py_int name version e0 = Inr hc0 \<longrightarrow> \<not> is_ready hc0"
    by (auto simp: HealthChecker_init_def split: sum.splits)
  have st: "is_ready hc \<longrightarrow> is_ready (fst (step hc ev))"
    by (cases ev) (simp_all add: startup_event_def)
  have ready: "is_ready (run (startup_event hc) evs)"
    by (simp add: run_eq startup_event_def)
  show ?thesis
    using init st ready
    by (simp add: run_eq startup_event_def health_check_reply health_status_field
                  code_of_def body_field_def)
qed

theorem is_ready_monotone_witness:
  "HealthChecker_init decimal_int ''example-service'' ''1.0.0'' (all_up 5000000) = Inr example_checker
 \<and> \<not> is_ready example_checker
 \<and> is_ready (startup_event example_checker)
 \<and> is_ready (fst (step (startup_event example_checker) (Request GET_health_ready (broker_down 7000000))))
 \<and> is_ready (run (startup_event example_checker)
              [Request GET_health_ready (broker_down 7000000), Request GET_health (all_up 8000000)])
 \<and> is_ready (run example_checker [Request GET_root (all_up 5500000), Startup])
 \<and> Startup \<in> set [Request GET_root (all_up 5500000), Startup]
 \<and> code_of (dispatch (run (startup_event example_checker)
              [Request GET_health_ready (broker_down 7000000), Request GET_health (all_up 8000000)])
              GET_health (broker_down 9000000)) = Some 200"
proof -
  have i: "HealthChecker_init decimal_int ''example-service'' ''1.0.0'' (all_up 5000000) = Inr example_checker"
    by (simp add: HealthChecker_init_def getenv_int_def getenv_str_def all_up_def example_checker_def)
  have n: "\<not> is_ready example_checker"
    by (simp add: example_checker_def)
  have r: "is_ready (startup_event example_checker)"
    by (simp add: startup_event_def)
  have s: "is_ready (run example_checker [Request GET_root (all_up 5500000), Startup])"
    by (simp add: startup_event_def)
  from is_ready_monotone [where py_int = decimal_int and name = "''example-service''"
         and version = "''1.0.0''" and ?e0.0 = "all_up 5000000" and ?hc0.0 = example_checker
         and hc = "startup_event example_checker"
         and ev = "Request GET_health_ready (broker_down 7000000)"
         and evs = "[Request GET_health_ready (broker_down 7000000), Request GET_health (all_up 8000000)]"]
       is_ready_monotone [where hc = example_checker
         and evs = "[Request GET_root (all_up 5500000), Startup]"]
       is_ready_monotone [where hc = example_checker
         and evs = "[Request GET_health_ready (broker_down 7000000), Request GET_health (all_up 8000000)]"
         and e = "broker_down 9000000"]
       i n r s
  show ?thesis by simp
qed

text \<open>
  C8. A request leaves every attribute of the checker as it was, whichever of the four
  handlers serves it and whatever the environment; the startup event changes \<open>is_ready\<close>
  and nothing else; so along any sequence of events the name, version, port, startup time
  and the three connection configurations stay the same, a sequence without the startup
  event leaves the whole state unchanged, and so does any sequence once \<open>is_ready\<close> is
  true.
\<close>

theorem handlers_frame:
  "fst (step hc (Request r e)) = hc
 \<and> fst (step hc Startup) = hc\<lparr>is_ready := True\<rparr>
 \<and> service_name (run hc evs) = service_name hc
 \<and> service_version (run hc evs) = service_version hc
 \<and> service_port (run hc evs) = service_port hc
 \<and> startup_time (run hc evs) = startup_time hc
 \<and> postgres_config (run hc evs) = postgres_config hc
 \<and> redis_config (run hc evs) = redis_config hc
 \<and> rabbitmq_config (run hc evs) = rabbitmq_config hc
 \<and> (Startup \<notin> set evs \<longrightarrow> run hc evs = hc)
 \<and> (is_ready hc \<longrightarrow> run hc evs = hc)"
  by (simp add: run_eq startup_event_def)

theorem handlers_frame_witness:
  "Startup \<notin> set [Request GET_health (all_up 6000000), Request GET_health_ready (broker_down 7000000),
                   Request GET_health_live (interrupted 8000000), Request GET_root (all_up 9000000)]
 \<and> run example_checker
       [Request GET_health (all_up 6000000), Request GET_health_ready (broker_down 7000000),
        Request GET_health_live (interrupted 8000000), Request GET_root (all_up 9000000)]
     = example_checker
 \<and> is_ready (startup_event example_checker)
 \<and> run (startup_event example_checker)
       [Request GET_health_ready (interrupted 7000000), Startup, Request GET_health (all_up 9000000)]
     = startup_event example_checker"
  using handlers_frame [where hc = example_checker
          and evs = "[Request GET_health (all_up 6000000), Request GET_health_ready (broker_down 7000000),
                      Request GET_health_live (interrupted 8000000), Request GET_root (all_up 9000000)]"]
        handlers_frame [where hc = "startup_event example_checker"
          and evs = "[Request GET_health_ready (interrupted 7000000), Startup,
                      Request GET_health (all_up 9000000)]"]
  by (simp add: startup_event_def)

section \<open>Construction\<close>

text \<open>
  C9. With no environment variable set, construction succeeds with service port 8000,
  PostgreSQL at localhost:5432, Redis at localhost:6379 and RabbitMQ at localhost:5672 with
  virtual host \<open>/\<close>. When one of \<^verbatim>\<open>SERVICE_PORT\<close>, \<^verbatim>\<open>POSTGRES_PORT\<close>, \<^verbatim>\<open>REDIS_PORT\<close>,
  \<^verbatim>\<open>RABBITMQ_PORT\<close> is set to a text that \<^verbatim>\<open>int\<close> rejects, construction raises
  \<^verbatim>\<open>ValueError\<close>; and construction raises in no other case.
\<close>

theorem construction_defaults_and_ports:
  "(getenv e = (\<lambda>var. None) \<longrightarrow>
      HealthChecker_init py_int name version e =
        Inr \<lparr> service_name = name, service_version = version, service_port = 8000,
              startup_time = utcnow e 0, is_ready = False,
              postgres_config =
                \<lparr> pg_host = ''localhost'', pg_port = 5432,
                  pg_database = ''aktienanalyse_event_store'',
                  pg_user = ''stock_analysis'', pg_password = ''secure_password'' \<rparr>,
              redis_config = \<lparr> rd_host = ''localhost'', rd_port = 6379, rd_decode_responses = True \<rparr>,
              rabbitmq_config =
                \<lparr> mq_host = ''localhost'', mq_port = 5672, mq_virtual_host = ''/'',
                  mq_username = ''stock_analysis'', mq_password = ''stock_password'' \<rparr> \<rparr>)
 \<and> (var \<in> set port_variables \<and> getenv e var = Some v \<and> py_int v = None \<longrightarrow>
      (\<exists>w. HealthChecker_init py_int name version e = Inl (PyException ''ValueError'' w)))
 \<and> ((\<exists>x. HealthChecker_init py_int name version e = Inl x) \<longleftrightarrow>
      (\<exists>var\<in>set port_variables. \<exists>v. getenv e var = Some v \<and> py_int v = None))"
proof -
  have dflt: "getenv e = (\<lambda>var. None) \<longrightarrow>
      HealthChecker_init py_int name version e =
        Inr \<lparr> service_name = name, service_version = version, service_port = 8000,
              startup_time = utcnow e 0, is_ready = False,
              postgres_config =
                \<lparr> pg_host = ''localhost'', pg_port = 5432,
                  pg_database = ''aktienanalyse_event_store'',
                  pg_user = ''stock_analysis'', pg_password = ''secure_password'' \<rparr>,
              redis_config = \<lparr> rd_host = ''localhost'', rd_port = 6379, rd_decode_responses = True \<rparr>,
              rabbitmq_config =
                \<lparr> mq_host = ''localhost'', mq_port = 5672, mq_virtual_host = ''/'',
                  mq_username = ''stock_analysis'', mq_password = ''stock_password'' \<rparr> \<rparr>"
    by (simp add: HealthChecker_init_def getenv_int_def getenv_str_def)
  have iff: "(\<exists>x. HealthChecker_init py_int name version e = Inl x) \<longleftrightarrow>
      (\<exists>var\<in>set port_variables. \<exists>v. getenv e var = Some v \<and> py_int v = None)"
    by (simp add: init_raises_iff getenv_int_Inl port_variables_def)
  have bad: "\<exists>w. HealthChecker_init py_int name version e = Inl (PyException ''ValueError'' w)"
    if "var \<in> set port_variables \<and> getenv e var = Some v \<and> py_int v = None"
  proof -
    from that iff obtain x where x: "HealthChecker_init py_int name version e = Inl x"
      by blast
    with init_raises_ValueError [OF x] show ?thesis by blast
  qed
  from dflt iff bad show ?thesis by blast
qed

theorem construction_defaults_and_ports_witness:
  "getenv (all_up 5000000) = (\<lambda>var. None)
 \<and> HealthChecker_init decimal_int ''example-service'' ''1.0.0'' (all_up 5000000) = Inr example_checker
 \<and> ''REDIS_PORT'' \<in> set port_variables
 \<and> getenv (bad_port 5000000) ''REDIS_PORT'' = Some ''sixty''
 \<and> decimal_int ''sixty'' = None
 \<and> HealthChecker_init decimal_int ''example-service'' ''1.0.0'' (bad_port 5000000)
     = Inl (PyException ''ValueError'' ''sixty'')"
proof -
  have a: "getenv (all_up 5000000) = (\<lambda>var. None)"
    by (simp add: all_up_def)
  have b: "''REDIS_PORT'' \<in> set port_variables"
    by (simp add: port_variables_def)
  have c: "getenv (bad_port 5000000) ''REDIS_PORT'' = Some ''sixty''"
    by (simp add: bad_port_def all_up_def)
  have d: "decimal_int ''sixty'' = None"
    by (simp add: decimal_int_def)
  from construction_defaults_and_ports [of "all_up 5000000" decimal_int "''example-service''" "''1.0.0''"]
       construction_defaults_and_ports [of "bad_port 5000000" decimal_int "''example-service''" "''1.0.0''"
          "''REDIS_PORT''" "''sixty''"]
       a b c d
  show ?thesis
    by (simp add: example_checker_def all_up_def bad_port_def decimal_int_def
                  HealthChecker_init_def getenv_int_def getenv_str_def)
qed

section \<open>The intelligent core service\<close>

text \<open>
  C10. In the intelligent core service each of the three check functions returns true in
  every environment, so the \<open>ready\<close> field of the readiness answer is \<open>is_ready\<close>, the checks
  object reports all three dependencies as true, the status code is 200 exactly when
  \<open>is_ready\<close> is true, and after the startup event the readiness request answers 200 in
  every environment and after any sequence of events.
\<close>

theorem ics_checks_always_true:
  "check_database_connection e \<and> check_redis_connection e \<and> check_rabbitmq_connection e
 \<and> body_field ''ready'' (ics_readiness_check m e) = Some (JBool (ics_is_ready m))
 \<and> body_field ''checks'' (ics_readiness_check m e)
     = Some (JObj [(''database'', JBool True), (''redis'', JBool True), (''rabbitmq'', JBool True)])
 \<and> (code_of (ics_readiness_check m e) = Some 200 \<longleftrightarrow> ics_is_ready m)
 \<and> (code_of (ics_readiness_check m e) = Some 503 \<longleftrightarrow> \<not> ics_is_ready m)
 \<and> code_of (ics_dispatch (ics_run (ics_startup_event m) evs) GET_health_ready e) = Some 200"
  by (simp add: check_database_connection_def check_redis_connection_def
                check_rabbitmq_connection_def ics_readiness_check_def all_values_def
                body_field_def code_of_def ics_run_eq ics_startup_event_def Let_def
                HTTP_200_OK_def HTTP_503_SERVICE_UNAVAILABLE_def)

end
